theory Spec2Isabelle
  imports Complex_Main
begin

section \<open>etl-avalanche: the forecast normaliser and feature assembler of src/task.ts\<close>

text \<open>
  The task reads avalanche forecasts for a fixed list of New Zealand regions and turns them
  into GeoJSON features. The model follows \<^verbatim>\<open>src/task.ts\<close> function by function.

  Conventions of the embedding:
  \<^item> a rating, a level and a region id are JavaScript numbers holding integers: \<open>int\<close>;
  \<^item> text is \<open>string\<close>, one \<open>char\<close> per code unit, for text whose code units are below
    256;
  \<^item> a value that may be \<^verbatim>\<open>undefined\<close> or \<^verbatim>\<open>null\<close> is an \<open>option\<close>, \<open>None\<close> being the
    absent value;
  \<^item> a \<^verbatim>\<open>try { ... } catch { return null }\<close> block is a function into \<open>option\<close> whose
    throwing paths are written out as branches that give \<open>None\<close>.
\<close>

subsection \<open>Numbers in template literals\<close>

text \<open>
  \<^verbatim>\<open>`${n}`\<close> prints the number \<open>n\<close> as \<^verbatim>\<open>Number.prototype.toString\<close> does. For an integer
  of magnitude below \<open>10^21\<close> that is its decimal numeral; from \<open>10^21\<close> on it is the
  exponent form \<^verbatim>\<open>d.ddde+x\<close> with the fewest digits that still read back as the same
  number. A minus sign leads a negative number.
\<close>

definition digit_char :: "nat \<Rightarrow> char" where
  "digit_char d = ''0123456789'' ! d"

fun show_nat :: "nat \<Rightarrow> string" where
  "show_nat n = (if n < 10 then [digit_char n] else show_nat (n div 10) @ [digit_char (n mod 10)])"

declare show_nat.simps [simp del]

text \<open>
  The integers a JavaScript number holds are those a double represents: every integer up
  to \<open>2^53\<close>, beyond that the integers with a significand of 53 bits. \<open>to_double\<close> rounds
  a natural number to the nearest of them, a tie to the even significand, and leaves
  them as they are. \<open>round_div a b\<close> is the integer nearest to \<open>a / b\<close>, a tie to the even
  one.
\<close>

fun bit_length :: "nat \<Rightarrow> nat" where
  "bit_length n = (if n = 0 then 0 else Suc (bit_length (n div 2)))"

declare bit_length.simps [simp del]

fun num_digits :: "nat \<Rightarrow> nat" where
  "num_digits n = (if n < 10 then 1 else Suc (num_digits (n div 10)))"

declare num_digits.simps [simp del]

definition round_div :: "nat \<Rightarrow> nat \<Rightarrow> nat" where
  "round_div a b =
     (let q = a div b; r = a mod b
      in if 2 * r > b \<or> (2 * r = b \<and> odd q) then q + 1 else q)"

definition to_double :: "nat \<Rightarrow> nat" where
  "to_double n =
     (let b = bit_length n
      in if b \<le> 53 then n else round_div n (2 ^ (b - 53)) * 2 ^ (b - 53))"

text \<open>
  The exponent form of \<open>x\<close>, a number of \<open>d\<close> decimal digits. \<open>digits_ok x d k\<close>: the
  \<open>k\<close> leading digits of \<open>x\<close>, rounded, followed by zeros, still read back as \<open>x\<close>. The
  form takes the least such \<open>k\<close> (all \<open>d\<close> digits of a double read back as it); when the
  power of ten above \<open>x\<close> reads back as \<open>x\<close>, that power is printed, with its single digit. \<open>show_int\<close> prints an integer that no
  double holds as the double nearest to it.
\<close>

definition digits_ok :: "nat \<Rightarrow> nat \<Rightarrow> nat \<Rightarrow> bool" where
  "digits_ok x d k =
     (let s = round_div x (10 ^ (d - k))
      in 10 ^ (k - 1) \<le> s \<and> s < 10 ^ k \<and> to_double (s * 10 ^ (d - k)) = x)"

definition exponent_form :: "nat \<Rightarrow> string" where
  "exponent_form x =
     (let d = num_digits x
      in if to_double (10 ^ d) = x then ''1e+'' @ show_nat d
         else
           (let k = (case find (digits_ok x d) [1..<Suc d] of None \<Rightarrow> d | Some k \<Rightarrow> k);
                ds = show_nat (round_div x (10 ^ (d - k)))
            in (if k = 1 then ds else hd ds # CHR ''.'' # tl ds)
               @ ''e+'' @ show_nat (d - 1)))"

definition show_int :: "int \<Rightarrow> string" where
  "show_int i =
     (let m = nat \<bar>i\<bar>;
          body = (if m < 1000000000000000000000 then show_nat m
                  else exponent_form (to_double m))
      in if i < 0 then CHR ''-'' # body else body)"

subsection \<open>getDangerLevelText (task.ts, lines 206-217)\<close>

definition getDangerLevelText :: "int \<Rightarrow> string" where
  "getDangerLevelText rating =
     (if rating = - 2 then ''Insufficient Snow''
      else if rating = 0 then ''No Rating''
      else if rating = 1 then ''Low (1)''
      else if rating = 2 then ''Moderate (2)''
      else if rating = 3 then ''Considerable (3)''
      else if rating = 4 then ''High (4)''
      else if rating = 5 then ''Extreme (5)''
      else ''Level '' @ show_int rating)"

subsection \<open>Text helpers: the tag-stripping regular expression and trim\<close>

text \<open>
  \<^verbatim>\<open>s.replace(/<[^>]*>/g, '')\<close> scans from the left. At a \<^verbatim>\<open><\<close> the pattern matches up
  to and including the next \<^verbatim>\<open>>\<close> (whatever lies between, other \<^verbatim>\<open><\<close> included) and the
  match is dropped; a \<^verbatim>\<open><\<close> with no \<^verbatim>\<open>>\<close> behind it matches nothing and is kept.
\<close>

fun after_gt :: "string \<Rightarrow> string option" where
  "after_gt [] = None"
| "after_gt (c # cs) = (if c = CHR ''>'' then Some cs else after_gt cs)"

function strip_tags :: "string \<Rightarrow> string" where
  "strip_tags [] = []"
| "strip_tags (c # cs) =
     (if c = CHR ''<'' then
        (case after_gt cs of
           Some r \<Rightarrow> strip_tags r
         | None \<Rightarrow> c # strip_tags cs)
      else c # strip_tags cs)"
  by pat_completeness auto
termination
proof -
  have shorter: "length r < length cs" if "after_gt cs = Some r" for cs r
    using that by (induction cs) (auto split: if_splits)
  show ?thesis
    by (relation "measure length") (auto dest: shorter)
qed

text \<open>
  \<^verbatim>\<open>trim()\<close> removes white space and line terminators at both ends. Among the code units
  below 256 these are tab (U+0009), line feed (U+000A), vertical tab (U+000B), form feed
  (U+000C), carriage return (U+000D), space (U+0020) and no-break space (U+00A0).
\<close>

definition is_ws :: "char \<Rightarrow> bool" where
  "is_ws c = (c \<in> {CHR 0x09, CHR 0x0A, CHR 0x0B, CHR 0x0C, CHR 0x0D, CHR '' '', CHR 0xA0})"

definition trim :: "string \<Rightarrow> string" where
  "trim s = rev (dropWhile is_ws (rev (dropWhile is_ws s)))"

subsection \<open>Dates\<close>

text \<open>
  A \<^verbatim>\<open>Date\<close> holds a time value: an integral number of milliseconds since the epoch of
  magnitude at most \<open>8.64 * 10^15\<close>, or NaN (an invalid date), here \<open>None\<close>. Building a
  \<^verbatim>\<open>Date\<close> clips: a number out of that range gives the invalid date. All sums below stay
  under \<open>2^53\<close>, where the arithmetic of doubles is exact, so \<open>int\<close> is faithful.
\<close>

definition TimeClip :: "int \<Rightarrow> int option" where
  "TimeClip t = (if \<bar>t\<bar> > 8640000000000000 then None else Some t)"

subsection \<open>JSON documents\<close>

datatype json =
    JNull
  | JBool bool
  | JNum rat
  | JStr string
  | JArr "json list"
  | JObj "(string \<times> json) list"

text \<open>
  An object is the list of its own properties, each key once. \<open>None\<close> of type
  \<open>json option\<close> is \<^verbatim>\<open>undefined\<close>.
\<close>

fun truthy :: "json option \<Rightarrow> bool" where
  "truthy None = False"
| "truthy (Some JNull) = False"
| "truthy (Some (JBool b)) = b"
| "truthy (Some (JNum n)) = (n \<noteq> 0)"
| "truthy (Some (JStr s)) = (s \<noteq> [])"
| "truthy (Some (JArr xs)) = True"
| "truthy (Some (JObj kvs)) = True"

text \<open>
  \<open>own_prop d k\<close> is \<^verbatim>\<open>d.k\<close> for a non-null \<open>d\<close> and a name \<open>k\<close> that no prototype
  defines (the program reads \<^verbatim>\<open>layers\<close>, \<^verbatim>\<open>geometry\<close>, \<^verbatim>\<open>type\<close> and \<^verbatim>\<open>coordinates\<close>): only
  an object has such a property. \<open>first_elem d\<close> is \<^verbatim>\<open>d[0]\<close>: the first element of an
  array, the first character of a string, the property \<^verbatim>\<open>"0"\<close> of an object.
\<close>

fun own_prop :: "json \<Rightarrow> string \<Rightarrow> json option" where
  "own_prop (JObj kvs) k = map_of kvs k"
| "own_prop _ k = None"

fun first_elem :: "json \<Rightarrow> json option" where
  "first_elem (JArr []) = None"
| "first_elem (JArr (x # xs)) = Some x"
| "first_elem (JStr []) = None"
| "first_elem (JStr (c # cs)) = Some (JStr [c])"
| "first_elem (JObj kvs) = map_of kvs ''0''"
| "first_elem _ = None"

datatype js_exn = TypeError

text \<open>Reading a property of \<^verbatim>\<open>undefined\<close> or \<^verbatim>\<open>null\<close> throws a TypeError.\<close>

fun get_prop :: "json option \<Rightarrow> string \<Rightarrow> js_exn + json option" where
  "get_prop None k = Inl TypeError"
| "get_prop (Some JNull) k = Inl TypeError"
| "get_prop (Some d) k = Inr (own_prop d k)"

fun get_index0 :: "json option \<Rightarrow> js_exn + json option" where
  "get_index0 None = Inl TypeError"
| "get_index0 (Some JNull) = Inl TypeError"
| "get_index0 (Some d) = Inr (first_elem d)"

subsection \<open>The host environment\<close>

text \<open>
  What the program takes from the JavaScript runtime and cannot be read off its source:
  \<^item> \<open>Date_parse\<close>: the runtime's date parser, \<open>None\<close> for a string it rejects (NaN);
  \<^item> \<open>toISOString\<close>: the ISO-8601 text of a valid time value;
  \<^item> \<open>JSON_parse\<close>: \<^verbatim>\<open>JSON.parse\<close>, \<open>None\<close> where it throws a SyntaxError;
  \<^item> \<open>parseDate_fallback\<close>: what \<^verbatim>\<open>parseDate\<close> returns for a string \<^verbatim>\<open>new Date\<close>
    rejects (a date read by a regular expression in the host's time zone, else the
    current time): it depends on the clock and the time zone.
\<close>

record js_env =
  Date_parse :: "string \<Rightarrow> int option"
  toISOString :: "int \<Rightarrow> string"
  JSON_parse :: "string \<Rightarrow> json option"
  parseDate_fallback :: "string \<Rightarrow> string"

definition Date_of_string :: "js_env \<Rightarrow> string \<Rightarrow> int option" where
  "Date_of_string env s = (case Date_parse env s of None \<Rightarrow> None | Some tv \<Rightarrow> TimeClip tv)"

text \<open>
  The outcome of \<^verbatim>\<open>fetch\<close> followed by \<^verbatim>\<open>response.json()\<close>: either of them threw (a
  network error, the abort at the timeout, a body that is not JSON), the status was not
  ok, or the body was decoded.
\<close>

datatype 'a fetched = Threw | NotOk nat | Ok 'a

subsection \<open>Data of the program\<close>

record RegionInfo =
  region_id :: int
  title :: string
  latitude :: rat
  longitude :: rat
  geometry :: string

record altitude =
  rating :: int
  band_description :: string

text \<open>
  The program tests \<^verbatim>\<open>data.forecasts\<close>, \<^verbatim>\<open>forecast.altitudeDanger\<close> and
  \<^verbatim>\<open>forecast.importantInformation\<close> for presence before use, so these three may be absent.
\<close>

record forecast =
  regionId :: int
  altitudeDanger :: "altitude list option"
  created :: string
  validPeriod :: string
  importantInformation :: "string option"

record forecast_payload =
  forecasts :: "forecast list option"

record AvalancheData =
  location :: string
  level :: int
  levelText :: string
  description :: string
  start :: string
  expires :: string
  url :: string

subsection \<open>getRegionInfo (task.ts, lines 71-110)\<close>

definition getRegionInfo :: "RegionInfo fetched \<Rightarrow> RegionInfo option" where
  "getRegionInfo resp =
     (case resp of
        Threw \<Rightarrow> None
      | NotOk status \<Rightarrow> None
      | Ok data \<Rightarrow>
          Some \<lparr> region_id = region_id data, title = title data, latitude = latitude data,
                 longitude = longitude data, geometry = geometry data \<rparr>)"

subsection \<open>getForecastData (task.ts, lines 112-204)\<close>

text \<open>Lines 159-169: the scan for the highest positive rating, as a fold over the bands.\<close>

definition scan_step :: "altitude \<Rightarrow> int \<times> string \<Rightarrow> int \<times> string" where
  "scan_step a st =
     (case st of (maxRating, ratingDescription) \<Rightarrow>
        if rating a > maxRating \<and> rating a > 0 then (rating a, band_description a)
        else (maxRating, ratingDescription))"

definition scan_altitudes :: "altitude list option \<Rightarrow> int \<times> string" where
  "scan_altitudes ad =
     (case ad of
        None \<Rightarrow> (0, ''No rating available'')
      | Some bands \<Rightarrow>
          if length bands > 0 then fold scan_step bands (0, ''No rating available'')
          else (0, ''No rating available''))"

text \<open>Lines 171-178: the special case for insufficient snow.\<close>

definition insufficient_snow :: "altitude list option \<Rightarrow> int \<times> string \<Rightarrow> int \<times> string" where
  "insufficient_snow ad st =
     (case st of (maxRating, ratingDescription) \<Rightarrow>
        if maxRating = 0 then
          (case (case ad of None \<Rightarrow> None | Some bands \<Rightarrow> find (\<lambda>a. rating a = - 2) bands) of
             Some insufficientSnow \<Rightarrow> (0, band_description insufficientSnow)
           | None \<Rightarrow> (maxRating, ratingDescription))
        else (maxRating, ratingDescription))"

text \<open>Lines 180-183: the expiry, a \<^verbatim>\<open>Date\<close>.\<close>

definition validHours :: "forecast \<Rightarrow> int" where
  "validHours f = (if validPeriod f = ''48hrs'' then 48 else 24)"

definition expires_Date :: "js_env \<Rightarrow> forecast \<Rightarrow> int option" where
  "expires_Date env f =
     (case Date_of_string env (created f) of
        None \<Rightarrow> None
      | Some tv \<Rightarrow> TimeClip (tv + validHours f * 60 * 60 * 1000))"

text \<open>Lines 185-188: the description.\<close>

definition choose_description :: "forecast \<Rightarrow> string \<Rightarrow> string" where
  "choose_description f ratingDescription =
     (case importantInformation f of
        None \<Rightarrow> ratingDescription
      | Some info \<Rightarrow> if info \<noteq> [] then trim (strip_tags info) else ratingDescription)"

text \<open>
  The whole function. Everything is inside \<^verbatim>\<open>try\<close>; the one call that can throw on data of
  these types is \<^verbatim>\<open>expires.toISOString()\<close>, a RangeError on an invalid date, and the
  \<^verbatim>\<open>catch\<close> returns null.
\<close>

definition getForecastData :: "js_env \<Rightarrow> int \<Rightarrow> forecast_payload fetched \<Rightarrow> AvalancheData option" where
  "getForecastData env rid resp =
     (case resp of
        Threw \<Rightarrow> None
      | NotOk status \<Rightarrow> None
      | Ok data \<Rightarrow>
          (case forecasts data of
             None \<Rightarrow> None
           | Some fs \<Rightarrow>
               if length fs = 0 then None
               else
                 (case filter (\<lambda>f. regionId f = rid) fs of
                    [] \<Rightarrow> None
                  | f # others \<Rightarrow>
                      (case insufficient_snow (altitudeDanger f) (scan_altitudes (altitudeDanger f)) of
                         (maxRating, ratingDescription) \<Rightarrow>
                           (case expires_Date env f of
                              None \<Rightarrow> None
                            | Some tv \<Rightarrow>
                                Some \<lparr> location = ''Region '' @ show_int rid,
                                       level = max 0 maxRating,
                                       levelText = getDangerLevelText maxRating,
                                       description = choose_description f ratingDescription,
                                       start = created f,
                                       expires = toISOString env tv,
                                       url = ''https://www.avalanche.net.nz/region/'' @ show_int rid \<rparr>)))))"

subsection \<open>parseDate (task.ts, lines 219-247)\<close>

definition parseDate :: "js_env \<Rightarrow> string \<Rightarrow> string" where
  "parseDate env dateStr =
     (case Date_of_string env dateStr of
        Some tv \<Rightarrow> toISOString env tv
      | None \<Rightarrow> parseDate_fallback env dateStr)"

subsection \<open>The styling tables (task.ts, lines 5-24)\<close>

definition AVALANCHE_ICONS :: "int \<rightharpoonup> string" where
  "AVALANCHE_ICONS = map_of
     [(0, ''bb4df0a6-ca8d-4ba8-bb9e-3deb97ff015e:NaturalHazards/NH.41B.Avalanche.DangerLevel0.Label.png''),
      (1, ''bb4df0a6-ca8d-4ba8-bb9e-3deb97ff015e:NaturalHazards/NH.42B.Avalanche.DangerLevel1.Label.png''),
      (2, ''bb4df0a6-ca8d-4ba8-bb9e-3deb97ff015e:NaturalHazards/NH.43B.Avalanche.DangerLevel2.Label.png''),
      (3, ''bb4df0a6-ca8d-4ba8-bb9e-3deb97ff015e:NaturalHazards/NH.44B.Avalanche.DangerLevel3.Label.png''),
      (4, ''bb4df0a6-ca8d-4ba8-bb9e-3deb97ff015e:NaturalHazards/NH.45B.Avalanche.DangerLevel4and5.Label.png''),
      (5, ''bb4df0a6-ca8d-4ba8-bb9e-3deb97ff015e:NaturalHazards/NH.45B.Avalanche.DangerLevel4and5.Label.png'')]"

definition AVALANCHE_COLORS :: "int \<rightharpoonup> string" where
  "AVALANCHE_COLORS = map_of
     [(5, ''rgb(0, 0, 0)''),
      (4, ''rgb(239, 43, 47)''),
      (3, ''rgb(248, 151, 44)''),
      (2, ''rgb(255, 244, 31)''),
      (1, ''rgb(84, 187, 81)''),
      (0, ''rgb(128, 128, 128)'')]"

definition VALID_REGIONS :: "int list" where
  "VALID_REGIONS = [1, 2, 4, 5, 6, 7, 8, 9, 10, 11, 12, 13, 15]"

text \<open>
  \<^verbatim>\<open>a || b\<close> on strings that may be undefined: \<open>a\<close> when it is a non-empty string, else
  \<open>b\<close>, which may itself be undefined.
\<close>

definition js_or :: "string option \<Rightarrow> string option \<Rightarrow> string option" where
  "js_or a b = (case a of None \<Rightarrow> b | Some s \<Rightarrow> if s \<noteq> [] then Some s else b)"

definition color_of_level :: "int \<Rightarrow> string option" where
  "color_of_level lvl = js_or (AVALANCHE_COLORS lvl) (AVALANCHE_COLORS 0)"

definition icon_of_level :: "int \<Rightarrow> string option" where
  "icon_of_level lvl = js_or (AVALANCHE_ICONS lvl) (AVALANCHE_ICONS 0)"

subsection \<open>Features\<close>

record link =
  uid :: string
  relation :: string
  mime :: string
  url_l :: string
  remarks_l :: string

record baseProperties =
  callsign :: string
  type_p :: string
  time_p :: string
  start_p :: string
  stale :: "string option"
  remarks :: string
  links :: "link list"

record polygon_style =
  stroke :: "string option"
  stroke_opacity :: rat
  stroke_width :: int
  stroke_style :: string
  fill_opacity :: rat
  fill :: "string option"

datatype styling = PolygonStyle polygon_style | PointStyle "string option"

datatype geometry_obj = is_Point: Point "rat list" | is_Polygon: Polygon json

record feature =
  id_f :: string
  type_f :: string
  properties :: baseProperties
  styling :: styling
  geometry_f :: geometry_obj

record FeatureCollection =
  type_fc :: string
  features :: "feature list"

subsection \<open>control: the body of the loop (task.ts, lines 265-341)\<close>

text \<open>
  Lines 268-280: the polygon of a region. \<open>read_polygon\<close> is the body of the \<^verbatim>\<open>try\<close>
  after \<^verbatim>\<open>JSON.parse\<close>; \<open>Inr None\<close> leaves \<^verbatim>\<open>polygonCoordinates\<close> null, and the \<^verbatim>\<open>catch\<close>
  does the same after any exception.
\<close>

definition read_polygon :: "json \<Rightarrow> js_exn + json option" where
  "read_polygon geometryData =
     (case get_prop (Some geometryData) ''layers'' of
        Inl e \<Rightarrow> Inl e
      | Inr layers \<Rightarrow>
          if \<not> truthy layers then Inr None
          else
            (case get_index0 layers of
               Inl e \<Rightarrow> Inl e
             | Inr layer0 \<Rightarrow>
                 if \<not> truthy layer0 then Inr None
                 else
                   (case get_prop layer0 ''geometry'' of
                      Inl e \<Rightarrow> Inl e
                    | Inr geom \<Rightarrow>
                        if \<not> truthy geom then Inr None
                        else
                          (case get_prop geom ''type'' of
                             Inl e \<Rightarrow> Inl e
                           | Inr ty \<Rightarrow>
                               if ty \<noteq> Some (JStr ''Polygon'') then Inr None
                               else
                                 (case get_prop geom ''coordinates'' of
                                    Inl e \<Rightarrow> Inl e
                                  | Inr coordinates \<Rightarrow>
                                      if truthy coordinates then Inr coordinates
                                      else Inr None)))))"

definition polygonCoordinates :: "js_env \<Rightarrow> string \<Rightarrow> json option" where
  "polygonCoordinates env geometryText =
     (case JSON_parse env geometryText of
        None \<Rightarrow> None
      | Some geometryData \<Rightarrow>
          (case read_polygon geometryData of
             Inl e \<Rightarrow> None
           | Inr coordinates \<Rightarrow> coordinates))"

fun join :: "string \<Rightarrow> string list \<Rightarrow> string" where
  "join sep [] = []"
| "join sep [x] = x"
| "join sep (x # y # ys) = x @ sep @ join sep (y # ys)"

text \<open>Lines 265-266 and 283-304: the properties both features share.\<close>

definition base_properties :: "js_env \<Rightarrow> int \<Rightarrow> RegionInfo \<Rightarrow> AvalancheData \<Rightarrow> baseProperties" where
  "base_properties env rid regionInfo data =
     (let startTime = parseDate env (start data);
          expiresTime = (if expires data \<noteq> [] then Some (parseDate env (expires data)) else None)
      in \<lparr> callsign = ''Avalanche Risk: '' @ title regionInfo @ '' - '' @ levelText data,
            type_p = ''a-o-X-i-g-h'',
            time_p = startTime,
            start_p = startTime,
            stale = expiresTime,
            remarks = join [CHR 0x0A]
              ([''Avalanche Risk: '' @ title regionInfo @ '' - '' @ levelText data,
                ''Location: '' @ title regionInfo,
                ''Danger Level: '' @ levelText data,
                ''Description: '' @ description data,
                ''Issued: '' @ start data]
               @ (if expires data \<noteq> [] then [''Valid Until: '' @ expires data] else [])),
            links = [\<lparr> uid = ''avalanche-'' @ show_int rid,
                        relation = ''r-u'',
                        mime = ''text/html'',
                        url_l = url data,
                        remarks_l = ''Avalanche Forecast Details'' \<rparr>] \<rparr>)"

definition polygon_feature :: "js_env \<Rightarrow> int \<Rightarrow> RegionInfo \<Rightarrow> AvalancheData \<Rightarrow> json \<Rightarrow> feature" where
  "polygon_feature env rid regionInfo data coordinates =
     (let color = color_of_level (level data)
      in \<lparr> id_f = ''avalanche-'' @ show_int rid,
            type_f = ''Feature'',
            properties = base_properties env rid regionInfo data,
            styling = PolygonStyle
              \<lparr> stroke = color, stroke_opacity = 4 / 10, stroke_width = 2,
                stroke_style = ''solid'', fill_opacity = 4 / 10, fill = color \<rparr>,
            geometry_f = Polygon coordinates \<rparr>)"

definition point_feature :: "js_env \<Rightarrow> int \<Rightarrow> RegionInfo \<Rightarrow> AvalancheData \<Rightarrow> feature" where
  "point_feature env rid regionInfo data =
     \<lparr> id_f = ''avalanche-'' @ show_int rid @ ''-center'',
       type_f = ''Feature'',
       properties = base_properties env rid regionInfo data,
       styling = PointStyle (icon_of_level (level data)),
       geometry_f = Point [latitude regionInfo, longitude regionInfo] \<rparr>"

text \<open>What one pass of the loop pushes, in order, once both lookups gave a value.\<close>

definition region_features :: "js_env \<Rightarrow> int \<Rightarrow> RegionInfo \<Rightarrow> AvalancheData \<Rightarrow> feature list" where
  "region_features env rid regionInfo data =
     (let coordinates = polygonCoordinates env (geometry regionInfo)
      in (case coordinates of
            None \<Rightarrow> []
          | Some c \<Rightarrow> if truthy (Some c) then [polygon_feature env rid regionInfo data c] else [])
         @ [point_feature env rid regionInfo data])"

subsection \<open>control: the run (task.ts, lines 249-358)\<close>

text \<open>
  The outside of one run: what reading the configuration gives (\<open>None\<close> when it throws),
  the outcome of each fetch for a timeout and a region, and whether the sink throws.
\<close>

record world =
  env_Timeout :: "rat option"
  fetch_region :: "rat \<Rightarrow> int \<Rightarrow> RegionInfo fetched"
  fetch_forecast :: "rat \<Rightarrow> int \<Rightarrow> forecast_payload fetched"
  submit_throws :: "FeatureCollection \<Rightarrow> bool"

definition loop_body :: "js_env \<Rightarrow> world \<Rightarrow> rat \<Rightarrow> int \<Rightarrow> feature list \<Rightarrow> feature list" where
  "loop_body env w timeout rid acc =
     (let regionInfo = getRegionInfo (fetch_region w timeout rid);
          data = getForecastData env rid (fetch_forecast w timeout rid)
      in case data of
           None \<Rightarrow> acc
         | Some d \<Rightarrow>
             (case regionInfo of
                None \<Rightarrow> acc
              | Some ri \<Rightarrow> acc @ region_features env rid ri d))"

text \<open>
  The result of a run: the collections handed to \<^verbatim>\<open>submit\<close>, in order, and whether
  \<^verbatim>\<open>control\<close> ended by rethrowing.
\<close>

record run =
  submit_calls :: "FeatureCollection list"
  rethrown :: bool

definition control :: "js_env \<Rightarrow> world \<Rightarrow> run" where
  "control env w =
     (case env_Timeout w of
        None \<Rightarrow> \<lparr> submit_calls = [], rethrown = True \<rparr>
      | Some timeout \<Rightarrow>
          (let fc = \<lparr> type_fc = ''FeatureCollection'',
                      features = fold (loop_body env w timeout) VALID_REGIONS [] \<rparr>
           in \<lparr> submit_calls = [fc], rethrown = submit_throws w fc \<rparr>))"

subsection \<open>Notions used to state the properties\<close>

text \<open>
  The altitude bands of a forecast, none when the field is absent.
\<close>

definition bands_of :: "forecast \<Rightarrow> altitude list" where
  "bands_of f = (case altitudeDanger f of None \<Rightarrow> [] | Some bands \<Rightarrow> bands)"

text \<open>
  A text made of markup tags and white space only: nothing, or a white space character or
  a tag \<^verbatim>\<open><...>\<close> (no \<^verbatim>\<open>>\<close> inside) followed by such a text.
\<close>

inductive only_markup_and_space :: "string \<Rightarrow> bool" where
  empty: "only_markup_and_space []"
| space: "is_ws c \<Longrightarrow> only_markup_and_space s \<Longrightarrow> only_markup_and_space (c # s)"
| tag: "CHR ''>'' \<notin> set body \<Longrightarrow> only_markup_and_space s \<Longrightarrow>
        only_markup_and_space (CHR ''<'' # body @ CHR ''>'' # s)"

text \<open>
  \<^verbatim>\<open>doc.layers[0].geometry.k\<close> read without any check, \<open>None\<close> as soon as a step of the
  path is missing.
\<close>

definition geometry_field :: "json \<Rightarrow> string \<Rightarrow> json option" where
  "geometry_field doc k =
     Option.bind (Option.bind (Option.bind (own_prop doc ''layers'') first_elem)
                    (\<lambda>layer0. own_prop layer0 ''geometry''))
       (\<lambda>geom. own_prop geom k)"

subsection \<open>Sample inputs\<close>

text \<open>
  A runtime given by tables, for the examples. The dates are the values of the ECMAScript
  date-time format: \<^verbatim>\<open>2025-01-01T00:00:00Z\<close> is 1735689600000 ms after the epoch, and
  \<^verbatim>\<open>+275760-09-13T00:00:00.000Z\<close> is the last instant a \<^verbatim>\<open>Date\<close> can hold.
\<close>

definition sample_Date_parse :: "string \<Rightarrow> int option" where
  "sample_Date_parse s =
     (if s = ''2025-01-01T00:00:00Z'' then Some 1735689600000
      else if s = ''2025-01-02T00:00:00.000Z'' then Some 1735776000000
      else if s = ''2025-01-03T00:00:00.000Z'' then Some 1735862400000
      else if s = ''+275760-09-13T00:00:00.000Z'' then Some 8640000000000000
      else None)"

definition sample_toISOString :: "int \<Rightarrow> string" where
  "sample_toISOString tv =
     (if tv = 1735689600000 then ''2025-01-01T00:00:00.000Z''
      else if tv = 1735776000000 then ''2025-01-02T00:00:00.000Z''
      else if tv = 1735862400000 then ''2025-01-03T00:00:00.000Z''
      else if tv = 8640000000000000 then ''+275760-09-13T00:00:00.000Z''
      else ''1970-01-01T00:00:00.000Z'')"

definition sample_polygon :: json where
  "sample_polygon = JArr [JArr [JArr [JNum 170, JNum (- 44)], JArr [JNum 171, JNum (- 44)],
                                JArr [JNum 171, JNum (- 43)], JArr [JNum 170, JNum (- 44)]]]"

definition sample_JSON_parse :: "string \<Rightarrow> json option" where
  \<open>sample_JSON_parse s =
     (if s = ''{"layers":[{"geometry":{"type":"Polygon","coordinates":[[[170,-44],[171,-44],[171,-43],[170,-44]]]}}]}''
      then Some (JObj [(''layers'', JArr [JObj [(''geometry'',
                   JObj [(''type'', JStr ''Polygon''), (''coordinates'', sample_polygon)])]])])
      else if s = ''[]'' then Some (JArr [])
      else if s = ''null'' then Some JNull
      else if s = ''{"layers":[{"geometry":{"type":"Point","coordinates":[170,-44]}}]}''
      then Some (JObj [(''layers'', JArr [JObj [(''geometry'',
                   JObj [(''type'', JStr ''Point''), (''coordinates'', JArr [JNum 170, JNum (- 44)])])]])])
      else None)\<close>

definition sample_env :: js_env where
  "sample_env = \<lparr> Date_parse = sample_Date_parse, toISOString = sample_toISOString,
                   JSON_parse = sample_JSON_parse,
                   parseDate_fallback = (\<lambda>s. ''1970-01-01T00:00:00.000Z'') \<rparr>"

text \<open>
  Forecast entries: scenario 1 and scenario 2 of the specification, an entry at the end of
  the date range, one whose important information is markup only and one without altitude
  bands; then the normalised forecast of scenario 1.
\<close>

definition scenario1 :: forecast where
  "scenario1 = \<lparr> regionId = 1,
                  altitudeDanger = Some [\<lparr> rating = 3, band_description = ''Considerable'' \<rparr>],
                  created = ''2025-01-01T00:00:00Z'', validPeriod = ''24hrs'',
                  importantInformation = Some [] \<rparr>"

definition scenario2 :: forecast where
  "scenario2 = \<lparr> regionId = 1,
                  altitudeDanger = Some [\<lparr> rating = - 2, band_description = ''Insufficient Snow data'' \<rparr>],
                  created = ''2025-01-01T00:00:00Z'', validPeriod = ''24hrs'',
                  importantInformation = Some [] \<rparr>"

definition far_future :: forecast where
  "far_future = \<lparr> regionId = 1,
                   altitudeDanger = Some [\<lparr> rating = 3, band_description = ''Considerable'' \<rparr>],
                   created = ''+275760-09-13T00:00:00.000Z'', validPeriod = ''24hrs'',
                   importantInformation = Some [] \<rparr>"

definition markup_only :: forecast where
  "markup_only = \<lparr> regionId = 1,
                  altitudeDanger = Some [\<lparr> rating = 3, band_description = ''Considerable'' \<rparr>],
                  created = ''2025-01-01T00:00:00Z'', validPeriod = ''48hrs'',
                  importantInformation = Some ''<p> </p>'' \<rparr>"

definition no_bands :: forecast where
  "no_bands = \<lparr> regionId = 1, altitudeDanger = None,
                 created = ''2025-01-01T00:00:00Z'', validPeriod = ''48hrs'',
                 importantInformation = None \<rparr>"

definition scenario1_data :: AvalancheData where
  "scenario1_data = \<lparr> location = ''Region 1'', level = 3, levelText = ''Considerable (3)'',
                       description = ''Considerable'', start = ''2025-01-01T00:00:00Z'',
                       expires = ''2025-01-02T00:00:00.000Z'',
                       url = ''https://www.avalanche.net.nz/region/1'' \<rparr>"

text \<open>
  Two regions, the first with a polygon, and two runs.
\<close>

definition region1 :: RegionInfo where
  \<open>region1 = \<lparr> region_id = 1, title = ''Aoraki/Mt Cook'', latitude = - 437 / 10,
                longitude = 1701 / 10,
                geometry = ''{"layers":[{"geometry":{"type":"Polygon","coordinates":[[[170,-44],[171,-44],[171,-43],[170,-44]]]}}]}'' \<rparr>\<close>

definition region2 :: RegionInfo where
  "region2 = \<lparr> region_id = 2, title = ''Arthurs Pass'', latitude = - 429 / 10,
                longitude = 1715 / 10, geometry = ''[]'' \<rparr>"

definition sample_world :: world where
  "sample_world =
     \<lparr> env_Timeout = Some 30000,
       fetch_region = (\<lambda>timeout rid. if rid = 1 then Ok region1 else Threw),
       fetch_forecast = (\<lambda>timeout rid. Ok \<lparr> forecasts = Some [scenario1] \<rparr>),
       submit_throws = (\<lambda>fc. False) \<rparr>"

definition quiet_world :: world where
  "quiet_world =
     \<lparr> env_Timeout = Some 30000,
       fetch_region = (\<lambda>timeout rid. if rid = 1 then Ok region1 else Ok region2),
       fetch_forecast = (\<lambda>timeout rid. Ok \<lparr> forecasts = Some [] \<rparr>),
       submit_throws = (\<lambda>fc. False) \<rparr>"

section \<open>Properties\<close>

subsection \<open>Numbers as text\<close>

lemma show_nat_nonempty: "show_nat n \<noteq> []"
  by (subst show_nat.simps) simp

lemmas number_eval = show_int_def exponent_form_def to_double_def digits_ok_def round_div_def
  bit_length.simps num_digits.simps show_nat.simps digit_char_def Let_def

lemma show_int_small: "show_int 1 = ''1''" "show_int 2 = ''2''"
  by (simp_all add: number_eval)



lemma to_double_examples:
  "to_double 9007199254740992 = 9007199254740992"
  "to_double 9007199254740993 = 9007199254740992"
  "to_double 9007199254740995 = 9007199254740996"
  by (simp_all add: number_eval)

text \<open>
  The regions of the catalogue print differently.
\<close>

lemma catalogue_ids_distinct: "distinct (map show_int VALID_REGIONS)"
  by (simp add: VALID_REGIONS_def number_eval)



subsection \<open>The forecast normaliser\<close>

text \<open>
  What \<open>getForecastData\<close> returns once the first entry of the region is known.
\<close>

lemma expires_Date_Some:
  "expires_Date env f = Some e \<longleftrightarrow>
     (\<exists>c. Date_of_string env (created f) = Some c \<and> \<bar>c + validHours f * 60 * 60 * 1000\<bar> \<le> 8640000000000000
        \<and> e = c + validHours f * 60 * 60 * 1000)"
  by (auto simp: expires_Date_def TimeClip_def split: option.splits)

lemma getForecastData_first_match:
  assumes "filter (\<lambda>f. regionId f = rid) fs = f # others"
  shows "getForecastData env rid (Ok \<lparr> forecasts = Some fs \<rparr>) =
     (case expires_Date env f of
        None \<Rightarrow> None
      | Some tv \<Rightarrow>
          Some \<lparr> location = ''Region '' @ show_int rid,
                 level = max 0 (fst (insufficient_snow (altitudeDanger f) (scan_altitudes (altitudeDanger f)))),
                 levelText = getDangerLevelText (fst (insufficient_snow (altitudeDanger f) (scan_altitudes (altitudeDanger f)))),
                 description = choose_description f (snd (insufficient_snow (altitudeDanger f) (scan_altitudes (altitudeDanger f)))),
                 start = created f,
                 expires = toISOString env tv,
                 url = ''https://www.avalanche.net.nz/region/'' @ show_int rid \<rparr>)"
proof -
  from assms have "fs \<noteq> []" by auto
  with assms show ?thesis
    by (simp add: getForecastData_def split: prod.splits option.splits)
qed

lemma getForecastData_no_match:
  assumes "filter (\<lambda>f. regionId f = rid) fs = []"
  shows "getForecastData env rid (Ok \<lparr> forecasts = Some fs \<rparr>) = None"
  using assms by (simp add: getForecastData_def)

lemma getForecastData_Some_fields:
  assumes "filter (\<lambda>g. regionId g = rid) fs = f # others"
      and "getForecastData env rid (Ok \<lparr> forecasts = Some fs \<rparr>) = Some d"
  shows "level d = max 0 (fst (insufficient_snow (altitudeDanger f) (scan_altitudes (altitudeDanger f))))"
    and "levelText d = getDangerLevelText (fst (insufficient_snow (altitudeDanger f) (scan_altitudes (altitudeDanger f))))"
    and "description d = choose_description f (snd (insufficient_snow (altitudeDanger f) (scan_altitudes (altitudeDanger f))))"
    and "start d = created f"
  using assms(2) unfolding getForecastData_first_match [OF assms(1)]
  by (auto split: option.splits)

text \<open>
  The runtime of the examples, and scenario 1 of the specification end to end.
\<close>

lemma sample_env_simps:
  "Date_parse sample_env = sample_Date_parse"
  "toISOString sample_env = sample_toISOString"
  "JSON_parse sample_env = sample_JSON_parse"
  by (simp_all add: sample_env_def)

lemma sample_expiry:
  "expires_Date sample_env scenario1 = Some 1735776000000"
  "expires_Date sample_env scenario2 = Some 1735776000000"
  "expires_Date sample_env markup_only = Some 1735862400000"
  by (simp_all add: expires_Date_def Date_of_string_def TimeClip_def validHours_def
      sample_env_simps sample_Date_parse_def scenario1_def scenario2_def markup_only_def)

lemma scenario1_result:
  "getForecastData sample_env 1 (Ok \<lparr> forecasts = Some [scenario1] \<rparr>) = Some scenario1_data"
proof -
  have m: "filter (\<lambda>g. regionId g = 1) [scenario1] = scenario1 # []"
    by (simp add: scenario1_def)
  show ?thesis
    unfolding getForecastData_first_match [OF m] sample_expiry
    by (simp add: scenario1_def scenario1_data_def insufficient_snow_def scan_altitudes_def
        scan_step_def choose_description_def getDangerLevelText_def show_int_small
        sample_env_simps sample_toISOString_def)
qed

text \<open>
  C2. For a forecast entry whose created timestamp parses to the time \<open>c\<close>, the expiry is
  \<open>c\<close> plus exactly 48 hours (172800000 ms) when validPeriod is "48hrs" and \<open>c\<close> plus exactly
  24 hours (86400000 ms) for every other validPeriod, provided that sum is still a time a
  \<^verbatim>\<open>Date\<close> can hold (at most \<open>8.64 * 10^15\<close> ms); the normalised forecast then carries
  the ISO text of exactly that time. Beyond that range the expiry is the invalid date and
  the normaliser returns null.
\<close>

theorem expiry_exact_in_range:
  assumes "Date_of_string env (created f) = Some c"
      and "filter (\<lambda>g. regionId g = rid) fs = f # others"
  shows "(c + (if validPeriod f = ''48hrs'' then 48 else 24) * 60 * 60 * 1000 \<le> 8640000000000000 \<longrightarrow>
            expires_Date env f = Some (c + (if validPeriod f = ''48hrs'' then 172800000 else 86400000)) \<and>
            (\<exists>d. getForecastData env rid (Ok \<lparr> forecasts = Some fs \<rparr>) = Some d \<and>
                 expires d = toISOString env (c + (if validPeriod f = ''48hrs'' then 172800000 else 86400000)))) \<and>
         (c + (if validPeriod f = ''48hrs'' then 48 else 24) * 60 * 60 * 1000 > 8640000000000000 \<longrightarrow>
            expires_Date env f = None \<and>
            getForecastData env rid (Ok \<lparr> forecasts = Some fs \<rparr>) = None)"
proof -
  from assms(1) have lo: "- 8640000000000000 \<le> c"
    by (auto simp: Date_of_string_def TimeClip_def split: option.splits if_splits)
  have e: "expires_Date env f =
             (if c + (if validPeriod f = ''48hrs'' then 48 else 24) * 60 * 60 * 1000 \<le> 8640000000000000
              then Some (c + (if validPeriod f = ''48hrs'' then 172800000 else 86400000))
              else None)"
    using assms(1) lo by (auto simp: expires_Date_def TimeClip_def validHours_def)
  show ?thesis
    unfolding getForecastData_first_match [OF assms(2)] e by simp
qed

theorem expiry_exact_in_range_witness:
  "Date_of_string sample_env (created scenario1) = Some 1735689600000 \<and>
   filter (\<lambda>g. regionId g = 1) [scenario1] = [scenario1] \<and>
   expires_Date sample_env scenario1 = Some 1735776000000 \<and>
   (\<exists>d. getForecastData sample_env 1 (Ok \<lparr> forecasts = Some [scenario1] \<rparr>) = Some d \<and>
        expires d = ''2025-01-02T00:00:00.000Z'') \<and>
   Date_of_string sample_env (created markup_only) = Some 1735689600000 \<and>
   validPeriod markup_only = ''48hrs'' \<and>
   expires_Date sample_env markup_only = Some 1735862400000"
proof -
  have a: "Date_of_string sample_env (created scenario1) = Some 1735689600000"
    by (simp add: Date_of_string_def TimeClip_def sample_env_simps sample_Date_parse_def scenario1_def)
  have c: "filter (\<lambda>g. regionId g = 1) [scenario1] = scenario1 # []"
    by (simp add: scenario1_def)
  have v: "validPeriod scenario1 \<noteq> ''48hrs''" by (simp add: scenario1_def)
  have a': "Date_of_string sample_env (created markup_only) = Some 1735689600000"
    by (simp add: Date_of_string_def TimeClip_def sample_env_simps sample_Date_parse_def markup_only_def)
  have c': "filter (\<lambda>g. regionId g = 1) [markup_only] = markup_only # []"
    by (simp add: markup_only_def)
  have v': "validPeriod markup_only = ''48hrs''" by (simp add: markup_only_def)
  show ?thesis
    using expiry_exact_in_range [OF a c] expiry_exact_in_range [OF a' c'] a c v a' v'
    by (simp add: sample_env_simps sample_toISOString_def)
qed

text \<open>
  Without the range condition the statement fails: the entry created at the last instant
  of the date range parses, its validPeriod is not "48hrs", yet its expiry is an invalid
  date, not created plus 24 hours, \<^verbatim>\<open>toISOString\<close> throws and the normaliser returns null.
\<close>

theorem expiry_counterexample:
  "Date_of_string sample_env (created far_future) = Some 8640000000000000 \<and>
   validPeriod far_future \<noteq> ''48hrs'' \<and>
   expires_Date sample_env far_future \<noteq> Some (8640000000000000 + 24 * 60 * 60 * 1000) \<and>
   getForecastData sample_env 1 (Ok \<lparr> forecasts = Some [far_future] \<rparr>) = None"
  by (simp add: getForecastData_def expires_Date_def Date_of_string_def TimeClip_def validHours_def
      sample_env_simps sample_Date_parse_def far_future_def insufficient_snow_def scan_altitudes_def
      scan_step_def)

text \<open>
  C3. A payload is well formed when its forecast list is present and every entry has a
  valid expiry date (its created timestamp parses and the expiry is in the date range).
  For such a payload the normaliser returns null exactly when the list is empty or no
  entry has the region's id, and a normalised forecast whenever an entry matches. No
  exception escapes: the result is a value in both cases.
\<close>

theorem forecast_null_iff_no_match:
  assumes "\<forall>f\<in>set fs. \<exists>tv. expires_Date env f = Some tv"
  shows "(getForecastData env rid (Ok \<lparr> forecasts = Some fs \<rparr>) = None) =
           (fs = [] \<or> (\<forall>f\<in>set fs. regionId f \<noteq> rid)) \<and>
         ((\<exists>f\<in>set fs. regionId f = rid) \<longrightarrow>
           (\<exists>d. getForecastData env rid (Ok \<lparr> forecasts = Some fs \<rparr>) = Some d))"
proof (cases "filter (\<lambda>g. regionId g = rid) fs")
  case Nil
  then have "\<forall>f\<in>set fs. regionId f \<noteq> rid"
    by (simp add: filter_empty_conv)
  with getForecastData_no_match [OF Nil, of env] show ?thesis by simp
next
  case (Cons f others)
  then have "f \<in> set (filter (\<lambda>g. regionId g = rid) fs)" by simp
  then have m: "f \<in> set fs" "regionId f = rid" by auto
  with assms obtain tv where "expires_Date env f = Some tv" by blast
  then have "\<exists>d. getForecastData env rid (Ok \<lparr> forecasts = Some fs \<rparr>) = Some d"
    unfolding getForecastData_first_match [OF Cons] by simp
  with m show ?thesis by auto
qed

theorem forecast_null_iff_no_match_witness:
  "expires_Date sample_env scenario1 = Some 1735776000000 \<and>
   regionId scenario1 = 1 \<and>
   getForecastData sample_env 1 (Ok \<lparr> forecasts = Some [scenario1] \<rparr>) \<noteq> None \<and>
   getForecastData sample_env 2 (Ok \<lparr> forecasts = Some [scenario1] \<rparr>) = None"
proof -
  have h: "\<forall>f\<in>set [scenario1]. \<exists>tv. expires_Date sample_env f = Some tv"
    by (simp add: sample_expiry)
  show ?thesis
    using forecast_null_iff_no_match [OF h, of 1] forecast_null_iff_no_match [OF h, of 2]
    by (simp add: sample_expiry) (simp add: scenario1_def)
qed

lemma fold_scan_step_no_positive:
  "\<forall>a\<in>set bands. \<not> rating a > 0 \<Longrightarrow> fold scan_step bands (0, p) = (0, p)"
  by (induction bands) (auto simp: scan_step_def)

lemma scan_altitudes_no_positive:
  "\<forall>a\<in>set (bands_of f). \<not> rating a > 0 \<Longrightarrow>
     scan_altitudes (altitudeDanger f) = (0, ''No rating available'')"
  by (auto simp: scan_altitudes_def bands_of_def fold_scan_step_no_positive split: option.splits)

lemma insufficient_snow_zero:
  "insufficient_snow (altitudeDanger f) (0, p) =
     (case find (\<lambda>a. rating a = - 2) (bands_of f) of
        Some a \<Rightarrow> (0, band_description a)
      | None \<Rightarrow> (0, p))"
  by (simp add: insufficient_snow_def bands_of_def split: option.splits)

lemma choose_description_empty:
  "importantInformation f = None \<or> importantInformation f = Some [] \<Longrightarrow>
     choose_description f p = p"
  by (auto simp: choose_description_def)

text \<open>
  C5. When the first matching forecast has no altitude entry rated above 0, the result has
  level 0 and level text "No Rating". The description chosen from the bands is that of the
  (first) entry rated exactly -2 when there is one and the placeholder
  "No rating available" when there is none, and it is the description of the result when
  importantInformation is empty or absent.
\<close>

theorem insufficient_snow_description:
  assumes "filter (\<lambda>g. regionId g = rid) fs = f # others"
      and "getForecastData env rid (Ok \<lparr> forecasts = Some fs \<rparr>) = Some d"
      and "\<forall>a\<in>set (bands_of f). \<not> rating a > 0"
  shows "level d = 0 \<and> levelText d = ''No Rating'' \<and>
         snd (insufficient_snow (altitudeDanger f) (scan_altitudes (altitudeDanger f))) =
           (case find (\<lambda>a. rating a = - 2) (bands_of f) of
              Some a \<Rightarrow> band_description a
            | None \<Rightarrow> ''No rating available'') \<and>
         (importantInformation f = None \<or> importantInformation f = Some [] \<longrightarrow>
            description d =
              (case find (\<lambda>a. rating a = - 2) (bands_of f) of
                 Some a \<Rightarrow> band_description a
               | None \<Rightarrow> ''No rating available''))"
proof -
  let ?st = "insufficient_snow (altitudeDanger f) (scan_altitudes (altitudeDanger f))"
  have st: "?st = (case find (\<lambda>a. rating a = - 2) (bands_of f) of
                     Some a \<Rightarrow> (0, band_description a)
                   | None \<Rightarrow> (0, ''No rating available''))"
    by (simp only: scan_altitudes_no_positive [OF assms(3)] insufficient_snow_zero)
  have f0: "fst ?st = 0" by (simp add: st split: option.splits)
  have s0: "snd ?st = (case find (\<lambda>a. rating a = - 2) (bands_of f) of
                         Some a \<Rightarrow> band_description a
                       | None \<Rightarrow> ''No rating available'')"
    by (simp add: st split: option.splits)
  have lv: "level d = 0"
    using getForecastData_Some_fields(1) [OF assms(1,2)] f0 by simp
  have lt: "levelText d = ''No Rating''"
    using getForecastData_Some_fields(2) [OF assms(1,2)] f0 by (simp add: getDangerLevelText_def)
  have ds: "description d = snd ?st"
    if "importantInformation f = None \<or> importantInformation f = Some []"
    using getForecastData_Some_fields(3) [OF assms(1,2)] choose_description_empty [OF that]
    by simp
  show ?thesis
    using lv lt ds s0 by simp
qed

theorem insufficient_snow_description_witness:
  "filter (\<lambda>g. regionId g = 1) [scenario2] = [scenario2] \<and>
   bands_of scenario2 = [\<lparr> rating = - 2, band_description = ''Insufficient Snow data'' \<rparr>] \<and>
   importantInformation scenario2 = Some [] \<and>
   (\<exists>d. getForecastData sample_env 1 (Ok \<lparr> forecasts = Some [scenario2] \<rparr>) = Some d \<and>
        level d = 0 \<and> levelText d = ''No Rating'' \<and> description d = ''Insufficient Snow data'') \<and>
   bands_of no_bands = [] \<and> importantInformation no_bands = None \<and>
   (\<exists>d. getForecastData sample_env 1 (Ok \<lparr> forecasts = Some [no_bands] \<rparr>) = Some d \<and>
        level d = 0 \<and> levelText d = ''No Rating'' \<and> description d = ''No rating available'')"
proof -
  have m: "filter (\<lambda>g. regionId g = 1) [scenario2] = scenario2 # []"
    by (simp add: scenario2_def)
  have n: "\<forall>a\<in>set (bands_of scenario2). \<not> rating a > 0"
    by (simp add: bands_of_def scenario2_def)
  obtain d where d: "getForecastData sample_env 1 (Ok \<lparr> forecasts = Some [scenario2] \<rparr>) = Some d"
    unfolding getForecastData_first_match [OF m] sample_expiry by simp
  have b: "bands_of scenario2 = [\<lparr> rating = - 2, band_description = ''Insufficient Snow data'' \<rparr>]"
    "importantInformation scenario2 = Some []"
    by (simp_all add: bands_of_def scenario2_def)
  from insufficient_snow_description [OF m d n]
  have r: "level d = 0 \<and> levelText d = ''No Rating'' \<and> description d = ''Insufficient Snow data''"
    by (simp add: b)
  have m': "filter (\<lambda>g. regionId g = 1) [no_bands] = no_bands # []"
    by (simp add: no_bands_def)
  have n': "\<forall>a\<in>set (bands_of no_bands). \<not> rating a > 0"
    by (simp add: bands_of_def no_bands_def)
  have e': "expires_Date sample_env no_bands = Some 1735862400000"
    by (simp add: expires_Date_def Date_of_string_def TimeClip_def validHours_def
        sample_env_simps sample_Date_parse_def no_bands_def)
  obtain d' where d': "getForecastData sample_env 1 (Ok \<lparr> forecasts = Some [no_bands] \<rparr>) = Some d'"
    unfolding getForecastData_first_match [OF m'] e' by simp
  have b': "bands_of no_bands = []" "importantInformation no_bands = None"
    by (simp_all add: bands_of_def no_bands_def)
  from insufficient_snow_description [OF m' d' n']
  have r': "level d' = 0 \<and> levelText d' = ''No Rating'' \<and> description d' = ''No rating available''"
    by (simp add: b')
  from m b d r b' d' r' show ?thesis by simp
qed

lemma after_gt_append: "CHR ''>'' \<notin> set body \<Longrightarrow> after_gt (body @ CHR ''>'' # s) = Some s"
  by (induction body) auto

lemma strip_tags_markup:
  "only_markup_and_space s \<Longrightarrow> \<forall>c\<in>set (strip_tags s). is_ws c"
proof (induction rule: only_markup_and_space.induct)
  case empty
  show ?case by simp
next
  case (space c s)
  from space.hyps(1) have "c \<noteq> CHR ''<''" by (auto simp: is_ws_def)
  with space show ?case by simp
next
  case (tag body s)
  then show ?case by (simp add: after_gt_append)
qed

lemma trim_all_ws:
  assumes "\<forall>c\<in>set s. is_ws c"
  shows "trim s = []"
proof -
  from assms have d: "dropWhile is_ws s = []" by (simp add: dropWhile_eq_Nil_conv)
  show ?thesis unfolding trim_def d by simp
qed

lemma trim_nbsp: "trim [CHR 0xA0] = []"
  by (simp add: trim_def is_ws_def)

text \<open>
  C10. When importantInformation is a non-empty text made of markup tags and white space
  only (the white space \<^verbatim>\<open>trim\<close> removes, the no-break space included), the normalised
  description is the empty string, whatever the altitude bands say:
  the text is tested for emptiness before the tags are stripped, so the description of
  the bands is not used.
\<close>

theorem markup_only_description_empty:
  assumes "filter (\<lambda>g. regionId g = rid) fs = f # others"
      and "getForecastData env rid (Ok \<lparr> forecasts = Some fs \<rparr>) = Some d"
      and "importantInformation f = Some info"
      and "info \<noteq> []"
      and "only_markup_and_space info"
  shows "description d = [] \<and> (\<forall>ratingDescription. choose_description f ratingDescription = [])"
proof -
  have "trim (strip_tags info) = []"
    using strip_tags_markup [OF assms(5)] by (rule trim_all_ws)
  then have c: "choose_description f p = []" for p
    using assms(3,4) by (simp add: choose_description_def)
  show ?thesis
    using getForecastData_Some_fields(3) [OF assms(1,2)] c by simp
qed

theorem markup_only_description_empty_witness:
  "importantInformation markup_only = Some ''<p> </p>'' \<and> only_markup_and_space ''<p> </p>'' \<and>
   (\<exists>d. getForecastData sample_env 1 (Ok \<lparr> forecasts = Some [markup_only] \<rparr>) = Some d \<and>
        description d = []) \<and>
   only_markup_and_space (''<p>'' @ [CHR 0xA0] @ ''</p>'') \<and>
   (\<exists>d. getForecastData sample_env 1
          (Ok \<lparr> forecasts = Some [markup_only \<lparr> importantInformation := Some (''<p>'' @ [CHR 0xA0] @ ''</p>'') \<rparr>] \<rparr>)
          = Some d \<and>
        description d = [])"
proof -
  have m: "filter (\<lambda>g. regionId g = 1) [markup_only] = markup_only # []"
    by (simp add: markup_only_def)
  obtain d where d: "getForecastData sample_env 1 (Ok \<lparr> forecasts = Some [markup_only] \<rparr>) = Some d"
    unfolding getForecastData_first_match [OF m] sample_expiry by simp
  have i: "importantInformation markup_only = Some ''<p> </p>''"
    by (simp add: markup_only_def)
  have "only_markup_and_space (CHR ''<'' # ''p'' @ CHR ''>'' # CHR '' '' # CHR ''<'' # ''/p'' @ CHR ''>'' # [])"
    by (intro only_markup_and_space.intros) (simp_all add: is_ws_def)
  then have o: "only_markup_and_space ''<p> </p>''" by simp
  have ne: "''<p> </p>'' \<noteq> []" by simp
  let ?n = "markup_only \<lparr> importantInformation := Some (''<p>'' @ [CHR 0xA0] @ ''</p>'') \<rparr>"
  have m': "filter (\<lambda>g. regionId g = 1) [?n] = ?n # []"
    by (simp add: markup_only_def)
  have e': "expires_Date sample_env ?n = Some 1735862400000"
    by (simp add: expires_Date_def Date_of_string_def TimeClip_def validHours_def
        sample_env_simps sample_Date_parse_def markup_only_def)
  obtain d' where d': "getForecastData sample_env 1 (Ok \<lparr> forecasts = Some [?n] \<rparr>) = Some d'"
    unfolding getForecastData_first_match [OF m'] e' by simp
  have i': "importantInformation ?n = Some (''<p>'' @ [CHR 0xA0] @ ''</p>'')" by simp
  have "only_markup_and_space (CHR ''<'' # ''p'' @ CHR ''>'' # CHR 0xA0 # CHR ''<'' # ''/p'' @ CHR ''>'' # [])"
    by (intro only_markup_and_space.intros) (simp_all add: is_ws_def)
  then have o': "only_markup_and_space (''<p>'' @ [CHR 0xA0] @ ''</p>'')" by simp
  have ne': "''<p>'' @ [CHR 0xA0] @ ''</p>'' \<noteq> []" by simp
  from markup_only_description_empty [OF m d i ne o] markup_only_description_empty [OF m' d' i' ne' o']
    i o d o' d'
  show ?thesis by auto
qed

subsection \<open>The geometry of a region\<close>

lemma get_prop_Inr: "get_prop v k = Inr r \<Longrightarrow> \<exists>d. v = Some d \<and> own_prop d k = r"
  by (cases "(v, k)" rule: get_prop.cases) auto

lemma get_index0_Inr: "get_index0 v = Inr r \<Longrightarrow> \<exists>d. v = Some d \<and> first_elem d = r"
  by (cases v rule: get_index0.cases) auto

lemma read_polygon_Some:
  assumes "read_polygon doc = Inr (Some c)"
  shows "geometry_field doc ''type'' = Some (JStr ''Polygon'') \<and>
         geometry_field doc ''coordinates'' = Some c \<and> truthy (Some c)"
proof -
  from assms obtain layers where 1: "get_prop (Some doc) ''layers'' = Inr layers" "truthy layers"
    by (auto simp: read_polygon_def split: sum.splits if_splits)
  from assms 1 obtain layer0 where 2: "get_index0 layers = Inr layer0" "truthy layer0"
    by (auto simp: read_polygon_def split: sum.splits if_splits)
  from assms 1 2 obtain geom where 3: "get_prop layer0 ''geometry'' = Inr geom" "truthy geom"
    by (auto simp: read_polygon_def split: sum.splits if_splits)
  from assms 1 2 3 have 4: "get_prop geom ''type'' = Inr (Some (JStr ''Polygon''))"
    by (auto simp: read_polygon_def split: sum.splits if_splits)
  from assms 1 2 3 4 have 5: "get_prop geom ''coordinates'' = Inr (Some c)" "truthy (Some c)"
    by (auto simp: read_polygon_def split: sum.splits if_splits)
  from 1 2 3 4 5 show ?thesis
    by (auto simp: geometry_field_def dest!: get_prop_Inr get_index0_Inr)
qed

lemma polygonCoordinates_Some:
  assumes "polygonCoordinates env s = Some c"
  shows "\<exists>doc. JSON_parse env s = Some doc \<and> read_polygon doc = Inr (Some c)"
  using assms by (auto simp: polygonCoordinates_def split: option.splits sum.splits)

lemma polygonCoordinates_truthy: "polygonCoordinates env s = Some c \<Longrightarrow> truthy (Some c)"
  by (auto dest!: polygonCoordinates_Some read_polygon_Some)

lemma region_features_eq:
  "region_features env rid regionInfo data =
     (case polygonCoordinates env (geometry regionInfo) of
        None \<Rightarrow> [point_feature env rid regionInfo data]
      | Some c \<Rightarrow> [polygon_feature env rid regionInfo data c, point_feature env rid regionInfo data])"
  by (auto simp: region_features_def dest: polygonCoordinates_truthy split: option.splits)

lemma sample_polygon_parsed:
  "polygonCoordinates sample_env (geometry region1) = Some sample_polygon"
  by (simp add: polygonCoordinates_def read_polygon_def sample_env_simps sample_JSON_parse_def
      region1_def sample_polygon_def)

text \<open>
  C4. When the geometry text is not JSON, or the document has no \<^verbatim>\<open>layers\<close>, is an empty
  array (or has an empty \<^verbatim>\<open>layers\<close> array), has a \<^verbatim>\<open>layers[0].geometry\<close> whose type is not
  exactly "Polygon", or has no coordinates there, the extraction gives no polygon, as a
  value and not as an error, and the region still emits its Point feature, alone.
\<close>

theorem geometry_absent_point_only:
  assumes "JSON_parse env (geometry regionInfo) = None \<or>
           (\<exists>doc. JSON_parse env (geometry regionInfo) = Some doc \<and>
              (own_prop doc ''layers'' = None \<or>
               doc = JArr [] \<or>
               own_prop doc ''layers'' = Some (JArr []) \<or>
               geometry_field doc ''type'' \<noteq> Some (JStr ''Polygon'') \<or>
               geometry_field doc ''coordinates'' = None))"
  shows "polygonCoordinates env (geometry regionInfo) = None \<and>
         region_features env rid regionInfo data = [point_feature env rid regionInfo data]"
proof -
  have "polygonCoordinates env (geometry regionInfo) = None"
  proof (rule ccontr)
    assume "polygonCoordinates env (geometry regionInfo) \<noteq> None"
    then obtain c where "polygonCoordinates env (geometry regionInfo) = Some c" by auto
    then obtain doc where d: "JSON_parse env (geometry regionInfo) = Some doc"
      and r: "read_polygon doc = Inr (Some c)"
      by (auto dest: polygonCoordinates_Some)
    from read_polygon_Some [OF r]
    have t: "geometry_field doc ''type'' = Some (JStr ''Polygon'')"
      and k: "geometry_field doc ''coordinates'' = Some c" by auto
    from t have "own_prop doc ''layers'' \<noteq> None" "doc \<noteq> JArr []"
      "own_prop doc ''layers'' \<noteq> Some (JArr [])"
      by (auto simp: geometry_field_def bind_eq_Some_conv)
    with assms d t k show False by auto
  qed
  then show ?thesis by (simp add: region_features_eq)
qed

theorem geometry_absent_point_only_witness:
  \<open>JSON_parse sample_env (geometry region2) = Some (JArr []) \<and>
   polygonCoordinates sample_env (geometry region2) = None \<and>
   region_features sample_env 2 region2 scenario1_data = [point_feature sample_env 2 region2 scenario1_data] \<and>
   id_f (point_feature sample_env 2 region2 scenario1_data) = ''avalanche-2-center'' \<and>
   JSON_parse sample_env ''not json'' = None \<and>
   polygonCoordinates sample_env ''not json'' = None \<and>
   JSON_parse sample_env ''null'' = Some JNull \<and>
   polygonCoordinates sample_env ''null'' = None \<and>
   polygonCoordinates sample_env ''{"layers":[{"geometry":{"type":"Point","coordinates":[170,-44]}}]}'' = None\<close>
proof -
  have p: "JSON_parse sample_env (geometry region2) = Some (JArr [])"
    by (simp add: sample_env_simps sample_JSON_parse_def region2_def)
  have q: "JSON_parse sample_env ''not json'' = None"
    by (simp add: sample_env_simps sample_JSON_parse_def)
  have r: "JSON_parse sample_env ''null'' = Some JNull"
    by (simp add: sample_env_simps sample_JSON_parse_def)
  have s: \<open>\<exists>doc. JSON_parse sample_env ''{"layers":[{"geometry":{"type":"Point","coordinates":[170,-44]}}]}'' = Some doc \<and>
             geometry_field doc ''type'' = Some (JStr ''Point'')\<close>
    by (simp add: sample_env_simps sample_JSON_parse_def geometry_field_def)
  show ?thesis
    using p q r s
      geometry_absent_point_only [of sample_env region2 2 scenario1_data]
      geometry_absent_point_only [of sample_env "region2 \<lparr> geometry := ''not json'' \<rparr>" 2 scenario1_data]
      geometry_absent_point_only [of sample_env "region2 \<lparr> geometry := ''null'' \<rparr>" 2 scenario1_data]
      geometry_absent_point_only [of sample_env
        \<open>region2 \<lparr> geometry := ''{"layers":[{"geometry":{"type":"Point","coordinates":[170,-44]}}]}'' \<rparr>\<close>
        2 scenario1_data]
    by (auto simp: point_feature_def show_int_small)
qed

subsection \<open>The styling tables\<close>

lemma dom_colors: "dom AVALANCHE_COLORS = {0, 1, 2, 3, 4, 5}"
  by (auto simp: AVALANCHE_COLORS_def split: if_splits)

lemma dom_icons: "dom AVALANCHE_ICONS = {0, 1, 2, 3, 4, 5}"
  by (auto simp: AVALANCHE_ICONS_def split: if_splits)

text \<open>
  C8. For every integer level the colour and the icon are defined: the entry of the table
  for a level in the table, the entry of level 0 for every other level.
\<close>

theorem lookup_total_with_fallback:
  "color_of_level lvl \<noteq> None \<and> icon_of_level lvl \<noteq> None \<and>
   (lvl \<in> dom AVALANCHE_COLORS \<longrightarrow> color_of_level lvl = AVALANCHE_COLORS lvl) \<and>
   (lvl \<notin> dom AVALANCHE_COLORS \<longrightarrow> color_of_level lvl = AVALANCHE_COLORS 0) \<and>
   (lvl \<in> dom AVALANCHE_ICONS \<longrightarrow> icon_of_level lvl = AVALANCHE_ICONS lvl) \<and>
   (lvl \<notin> dom AVALANCHE_ICONS \<longrightarrow> icon_of_level lvl = AVALANCHE_ICONS 0)"
proof -
  have c: "color_of_level lvl = (if lvl \<in> {0, 1, 2, 3, 4, 5} then AVALANCHE_COLORS lvl else AVALANCHE_COLORS 0)"
    by (simp add: color_of_level_def js_or_def AVALANCHE_COLORS_def)
  have i: "icon_of_level lvl = (if lvl \<in> {0, 1, 2, 3, 4, 5} then AVALANCHE_ICONS lvl else AVALANCHE_ICONS 0)"
    by (simp add: icon_of_level_def js_or_def AVALANCHE_ICONS_def)
  have c0: "AVALANCHE_COLORS 0 \<noteq> None" "lvl \<in> {0, 1, 2, 3, 4, 5} \<Longrightarrow> AVALANCHE_COLORS lvl \<noteq> None"
    using dom_colors by auto
  have i0: "AVALANCHE_ICONS 0 \<noteq> None" "lvl \<in> {0, 1, 2, 3, 4, 5} \<Longrightarrow> AVALANCHE_ICONS lvl \<noteq> None"
    using dom_icons by auto
  show ?thesis
    unfolding c i dom_colors dom_icons using c0 i0 by auto
qed

theorem lookup_total_with_fallback_witness:
  "(3::int) \<in> dom AVALANCHE_COLORS \<and> color_of_level 3 = Some ''rgb(248, 151, 44)'' \<and>
   (7::int) \<notin> dom AVALANCHE_COLORS \<and> color_of_level 7 = Some ''rgb(128, 128, 128)'' \<and>
   (7::int) \<notin> dom AVALANCHE_ICONS \<and>
   icon_of_level 7 = Some ''bb4df0a6-ca8d-4ba8-bb9e-3deb97ff015e:NaturalHazards/NH.41B.Avalanche.DangerLevel0.Label.png''"
  using lookup_total_with_fallback [of 3] lookup_total_with_fallback [of 7]
  by (simp add: dom_colors dom_icons) (simp add: AVALANCHE_COLORS_def AVALANCHE_ICONS_def)

subsection \<open>The loop and the run\<close>

lemma loop_body_append: "loop_body env w timeout rid acc = acc @ loop_body env w timeout rid []"
  by (simp add: loop_body_def Let_def split: option.splits)

lemma fold_loop_body:
  "fold (loop_body env w timeout) rids acc =
     acc @ concat (map (\<lambda>rid. loop_body env w timeout rid []) rids)"
proof (induction rids arbitrary: acc)
  case Nil
  show ?case by simp
next
  case (Cons rid rids)
  show ?case
    by (simp add: Cons.IH) (subst loop_body_append, simp)
qed

lemma loop_body_resolved:
  assumes "getRegionInfo (fetch_region w timeout rid) = Some regionInfo"
      and "getForecastData env rid (fetch_forecast w timeout rid) = Some data"
  shows "loop_body env w timeout rid acc = acc @ region_features env rid regionInfo data"
  using assms by (simp add: loop_body_def)

lemma loop_body_missing:
  assumes "getRegionInfo (fetch_region w timeout rid) = None \<or>
           getForecastData env rid (fetch_forecast w timeout rid) = None"
  shows "loop_body env w timeout rid acc = acc"
  using assms by (auto simp: loop_body_def split: option.splits)

lemma control_submit_calls:
  assumes "env_Timeout w = Some timeout"
  shows "submit_calls (control env w) =
           [\<lparr> type_fc = ''FeatureCollection'',
              features = concat (map (\<lambda>rid. loop_body env w timeout rid []) VALID_REGIONS) \<rparr>]"
  using assms by (simp add: control_def Let_def fold_loop_body)

lemma sample_world_simps:
  "env_Timeout sample_world = Some 30000"
  "getRegionInfo (fetch_region sample_world timeout 1) = Some region1"
  "rid \<noteq> 1 \<Longrightarrow> getRegionInfo (fetch_region sample_world timeout rid) = None"
  "getForecastData sample_env 1 (fetch_forecast sample_world timeout 1) = Some scenario1_data"
  by (simp_all add: sample_world_def getRegionInfo_def region1_def scenario1_result)

lemma sample_run:
  "submit_calls (control sample_env sample_world) =
     [\<lparr> type_fc = ''FeatureCollection'',
        features = [polygon_feature sample_env 1 region1 scenario1_data sample_polygon,
                    point_feature sample_env 1 region1 scenario1_data] \<rparr>]"
proof -
  have 1: "loop_body sample_env sample_world 30000 1 [] =
             [polygon_feature sample_env 1 region1 scenario1_data sample_polygon,
              point_feature sample_env 1 region1 scenario1_data]"
    by (simp add: loop_body_def sample_world_simps region_features_eq sample_polygon_parsed)
  have 2: "loop_body sample_env sample_world 30000 rid [] = []" if "rid \<noteq> 1" for rid
    using that by (intro loop_body_missing) (simp add: sample_world_simps)
  show ?thesis
    unfolding control_submit_calls [OF sample_world_simps(1)]
    by (simp add: VALID_REGIONS_def 1 2)
qed

text \<open>
  C6. For a region whose region info and forecast both resolve, the loop appends exactly
  one Point feature with id \<^verbatim>\<open>avalanche-<regionId>-center\<close>, preceded by exactly one Polygon
  feature with id \<^verbatim>\<open>avalanche-<regionId>\<close> when a polygon was extracted and by nothing
  otherwise; it appends nothing else.
\<close>

theorem features_per_region:
  assumes "getRegionInfo (fetch_region w timeout rid) = Some regionInfo"
      and "getForecastData env rid (fetch_forecast w timeout rid) = Some data"
  shows "\<exists>emitted. loop_body env w timeout rid acc = acc @ emitted \<and>
           map (\<lambda>x. (id_f x, is_Polygon (geometry_f x), is_Point (geometry_f x))) emitted =
             (if polygonCoordinates env (geometry regionInfo) \<noteq> None
              then [(''avalanche-'' @ show_int rid, True, False)] else [])
             @ [(''avalanche-'' @ show_int rid @ ''-center'', False, True)]"
proof -
  have "map (\<lambda>x. (id_f x, is_Polygon (geometry_f x), is_Point (geometry_f x)))
          (region_features env rid regionInfo data) =
        (if polygonCoordinates env (geometry regionInfo) \<noteq> None
         then [(''avalanche-'' @ show_int rid, True, False)] else [])
        @ [(''avalanche-'' @ show_int rid @ ''-center'', False, True)]"
    by (auto simp: region_features_eq polygon_feature_def point_feature_def Let_def
        split: option.splits)
  with loop_body_resolved [OF assms] show ?thesis by blast
qed

theorem features_per_region_witness:
  "getRegionInfo (fetch_region sample_world 30000 1) = Some region1 \<and>
   getForecastData sample_env 1 (fetch_forecast sample_world 30000 1) = Some scenario1_data \<and>
   map (\<lambda>x. (id_f x, is_Polygon (geometry_f x), is_Point (geometry_f x)))
     (loop_body sample_env sample_world 30000 1 []) =
     [(''avalanche-1'', True, False), (''avalanche-1-center'', False, True)]"
  using features_per_region [OF sample_world_simps(2) [of 30000] sample_world_simps(4) [of 30000], of "[]"]
  by (auto simp: sample_world_simps sample_polygon_parsed show_int_small)

text \<open>
  C7. Every Point feature of the submitted collection is the centre of a region of the
  catalogue: its id is \<^verbatim>\<open>avalanche-<regionId>-center\<close> and its coordinates are the pair
  [latitude, longitude], in that order, exactly as upstream gave them for that region.
  The id names one region only, and the coordinates are those of the region it names.
\<close>

theorem point_coordinates_lat_lon:
  assumes "env_Timeout w = Some timeout"
      and "fc \<in> set (submit_calls (control env w))"
      and "x \<in> set (features fc)"
      and "is_Point (geometry_f x)"
  shows "(\<exists>rid\<in>set VALID_REGIONS. \<exists>upstream.
            id_f x = ''avalanche-'' @ show_int rid @ ''-center'' \<and>
            fetch_region w timeout rid = Ok upstream \<and>
            geometry_f x = Point [latitude upstream, longitude upstream]) \<and>
         (\<forall>rid\<in>set VALID_REGIONS.
            id_f x = ''avalanche-'' @ show_int rid @ ''-center'' \<longrightarrow>
            (\<exists>upstream. fetch_region w timeout rid = Ok upstream \<and>
               geometry_f x = Point [latitude upstream, longitude upstream]))"
proof -
  from assms(1,2) have "features fc = concat (map (\<lambda>rid. loop_body env w timeout rid []) VALID_REGIONS)"
    by (simp add: control_submit_calls)
  with assms(3) obtain rid where rid: "rid \<in> set VALID_REGIONS"
    and x: "x \<in> set (loop_body env w timeout rid [])" by auto
  from x have "\<exists>regionInfo data. getRegionInfo (fetch_region w timeout rid) = Some regionInfo \<and>
                 x \<in> set (region_features env rid regionInfo data)"
    by (cases "getRegionInfo (fetch_region w timeout rid)";
        cases "getForecastData env rid (fetch_forecast w timeout rid)")
       (auto simp: loop_body_def)
  then obtain regionInfo data where
    ri: "getRegionInfo (fetch_region w timeout rid) = Some regionInfo"
    and xs: "x \<in> set (region_features env rid regionInfo data)"
    by blast
  from ri obtain upstream where up: "fetch_region w timeout rid = Ok upstream"
    and ll: "latitude regionInfo = latitude upstream" "longitude regionInfo = longitude upstream"
    by (auto simp: getRegionInfo_def split: fetched.splits)
  from xs assms(4) have xp: "x = point_feature env rid regionInfo data"
    by (auto simp: region_features_eq polygon_feature_def Let_def split: option.splits)
  then have g: "geometry_f x = Point [latitude upstream, longitude upstream]"
    by (simp add: point_feature_def ll)
  from xp have i: "id_f x = ''avalanche-'' @ show_int rid @ ''-center''"
    by (simp add: point_feature_def)
  have own: "rid' = rid"
    if "rid' \<in> set VALID_REGIONS" "id_f x = ''avalanche-'' @ show_int rid' @ ''-center''" for rid'
  proof -
    from that(2) i have "show_int rid' = show_int rid" by simp
    moreover have "inj_on show_int (set VALID_REGIONS)"
      using catalogue_ids_distinct by (simp add: distinct_map)
    ultimately show ?thesis using that(1) rid by (auto dest: inj_onD)
  qed
  from rid up g i have first: "\<exists>rid\<in>set VALID_REGIONS. \<exists>upstream.
            id_f x = ''avalanche-'' @ show_int rid @ ''-center'' \<and>
            fetch_region w timeout rid = Ok upstream \<and>
            geometry_f x = Point [latitude upstream, longitude upstream]"
    by blast
  from own up g have second: "\<forall>rid\<in>set VALID_REGIONS.
            id_f x = ''avalanche-'' @ show_int rid @ ''-center'' \<longrightarrow>
            (\<exists>upstream. fetch_region w timeout rid = Ok upstream \<and>
               geometry_f x = Point [latitude upstream, longitude upstream])"
    by blast
  from first second show ?thesis by blast
qed

theorem point_coordinates_lat_lon_witness:
  "env_Timeout sample_world = Some 30000 \<and>
   point_feature sample_env 1 region1 scenario1_data
     \<in> set (features (hd (submit_calls (control sample_env sample_world)))) \<and>
   is_Point (geometry_f (point_feature sample_env 1 region1 scenario1_data)) \<and>
   id_f (point_feature sample_env 1 region1 scenario1_data) = ''avalanche-1-center'' \<and>
   fetch_region sample_world 30000 1 = Ok region1 \<and>
   latitude region1 = - 437 / 10 \<and> longitude region1 = 1701 / 10 \<and>
   geometry_f (point_feature sample_env 1 region1 scenario1_data) = Point [- 437 / 10, 1701 / 10] \<and>
   (\<exists>rid\<in>set VALID_REGIONS. \<exists>upstream.
       id_f (point_feature sample_env 1 region1 scenario1_data) =
         ''avalanche-'' @ show_int rid @ ''-center'' \<and>
       fetch_region sample_world 30000 rid = Ok upstream \<and>
       geometry_f (point_feature sample_env 1 region1 scenario1_data) =
         Point [latitude upstream, longitude upstream])"
proof -
  let ?fc = "\<lparr> type_fc = ''FeatureCollection'',
        features = [polygon_feature sample_env 1 region1 scenario1_data sample_polygon,
                    point_feature sample_env 1 region1 scenario1_data] \<rparr>"
  let ?x = "point_feature sample_env 1 region1 scenario1_data"
  have a: "?fc \<in> set (submit_calls (control sample_env sample_world))"
    by (simp add: sample_run)
  have b: "?x \<in> set (features ?fc)" by simp
  have c: "is_Point (geometry_f ?x)" by (simp add: point_feature_def)
  have d: "geometry_f ?x = Point [- 437 / 10, 1701 / 10]"
    by (simp add: point_feature_def region1_def)
  have e: "id_f ?x = ''avalanche-1-center''"
    by (simp add: point_feature_def show_int_small)
  have f: "fetch_region sample_world 30000 1 = Ok region1"
    "latitude region1 = - 437 / 10" "longitude region1 = 1701 / 10"
    by (simp_all add: sample_world_def region1_def)
  from point_coordinates_lat_lon [OF sample_world_simps(1) a b c]
  have "\<exists>rid\<in>set VALID_REGIONS. \<exists>upstream.
       id_f ?x = ''avalanche-'' @ show_int rid @ ''-center'' \<and>
       fetch_region sample_world 30000 rid = Ok upstream \<and>
       geometry_f ?x = Point [latitude upstream, longitude upstream]"
    by blast
  with b c d e f show ?thesis by (simp add: sample_run sample_world_simps)
qed

text \<open>
  C9. Once the configuration is read, the run hands exactly one collection to the sink:
  the features of the regions of the catalogue in order. A region whose region info or
  forecast is missing adds nothing and leaves the features gathered so far to the next
  region. When every forecast list is empty the one collection submitted has no feature.
\<close>

theorem run_submits_once:
  assumes "env_Timeout w = Some timeout"
  shows "submit_calls (control env w) =
           [\<lparr> type_fc = ''FeatureCollection'',
              features = concat (map (\<lambda>rid. loop_body env w timeout rid []) VALID_REGIONS) \<rparr>] \<and>
         (\<forall>rid acc. getRegionInfo (fetch_region w timeout rid) = None \<or>
                    getForecastData env rid (fetch_forecast w timeout rid) = None \<longrightarrow>
                    loop_body env w timeout rid acc = acc) \<and>
         ((\<forall>rid\<in>set VALID_REGIONS. fetch_forecast w timeout rid = Ok \<lparr> forecasts = Some [] \<rparr>) \<longrightarrow>
            submit_calls (control env w) = [\<lparr> type_fc = ''FeatureCollection'', features = [] \<rparr>])"
proof -
  have a: "submit_calls (control env w) =
           [\<lparr> type_fc = ''FeatureCollection'',
              features = concat (map (\<lambda>rid. loop_body env w timeout rid []) VALID_REGIONS) \<rparr>]"
    by (rule control_submit_calls [OF assms])
  have b: "loop_body env w timeout rid acc = acc"
    if "getRegionInfo (fetch_region w timeout rid) = None \<or>
        getForecastData env rid (fetch_forecast w timeout rid) = None" for rid acc
    using that by (rule loop_body_missing)
  have c: "submit_calls (control env w) = [\<lparr> type_fc = ''FeatureCollection'', features = [] \<rparr>]"
    if h: "\<forall>rid\<in>set VALID_REGIONS. fetch_forecast w timeout rid = Ok \<lparr> forecasts = Some [] \<rparr>"
  proof -
    have "loop_body env w timeout rid [] = []" if "rid \<in> set VALID_REGIONS" for rid
      using h that by (intro loop_body_missing) (simp add: getForecastData_def)
    then have "concat (map (\<lambda>rid. loop_body env w timeout rid []) VALID_REGIONS) = []"
      by simp
    with a show ?thesis by simp
  qed
  from a b c show ?thesis by blast
qed

theorem run_submits_once_witness:
  "env_Timeout quiet_world = Some 30000 \<and>
   fetch_forecast quiet_world 30000 = (\<lambda>rid. Ok \<lparr> forecasts = Some [] \<rparr>) \<and>
   submit_calls (control sample_env quiet_world) = [\<lparr> type_fc = ''FeatureCollection'', features = [] \<rparr>]"
proof -
  have t: "env_Timeout quiet_world = Some 30000" by (simp add: quiet_world_def)
  have e: "\<forall>rid\<in>set VALID_REGIONS. fetch_forecast quiet_world 30000 rid = Ok \<lparr> forecasts = Some [] \<rparr>"
    by (simp add: quiet_world_def)
  have f: "fetch_forecast quiet_world 30000 = (\<lambda>rid. Ok \<lparr> forecasts = Some [] \<rparr>)"
    by (simp add: quiet_world_def)
  from run_submits_once [OF t, of sample_env] t e f show ?thesis by blast
qed

end
